theory Spec2Isabelle
  imports Main "HOL-Library.Word"
begin

section \<open>The WinRM command script (scripts/winrm-cmd.py)\<close>

text \<open>
  The script is one straight-line top-level program: it checks the length of
  \<^verbatim>\<open>sys.argv\<close>, imports the \<^verbatim>\<open>winrm\<close> module, builds a
  \<^verbatim>\<open>winrm.Session\<close>, calls \<^verbatim>\<open>run_ps\<close> on it, relays the two captured
  streams and leaves through \<^verbatim>\<open>sys.exit\<close>. Everything it does beyond computing
  values is an effect on the outside world, so the model returns, for one invocation,
  the list of effects in program order together with the way the program ended. The
  \<^verbatim>\<open>winrm\<close> library is not part of the script: what it answers is a parameter of
  the model.
\<close>

subsection \<open>Data\<close>

type_synonym bytes = "8 word list"

text \<open>The two local streams the script writes to.\<close>

datatype stream = Stdout | Stderr

text \<open>
  Exceptions that can reach the script, all of them ordinary ones (subclasses of
  \<^verbatim>\<open>Exception\<close>). \<open>ImportError\<close> is the class named by the script's only
  handler (with its subclasses); \<open>IndexError\<close> is what \<^verbatim>\<open>sys.argv[0]\<close> raises
  on an empty argument vector; \<open>Other\<close> is any other exception, by its description,
  such as the ones the library raises for a refused connection or rejected
  credentials.
\<close>

datatype exn = ImportError | IndexError | Other string

text \<open>
  The arguments of the call \<^verbatim>\<open>winrm.Session(target, auth=(user, password),
  transport=...)\<close>.
\<close>

record session =
  target :: string
  auth :: "string \<times> string"
  transport :: string

text \<open>The object \<^verbatim>\<open>run_ps\<close> returns: the fields the script reads.\<close>

record response =
  std_out :: bytes
  std_err :: bytes
  status_code :: int

text \<open>
  What lies outside the script: whether \<^verbatim>\<open>import winrm\<close> succeeds (\<open>None\<close>) or
  raises, whether the constructor \<^verbatim>\<open>winrm.Session\<close> returns (\<open>None\<close>) or raises,
  and what \<^verbatim>\<open>session.run_ps(command)\<close> returns or raises.
\<close>

record env =
  import_winrm :: "exn option"
  Session_init :: "session \<Rightarrow> exn option"
  run_ps :: "session \<Rightarrow> string \<Rightarrow> exn + response"

text \<open>
  The effects of one invocation, in program order. \<open>Text_write\<close> is a write of a
  \<^verbatim>\<open>str\<close> to the text layer of a stream (what \<^verbatim>\<open>print\<close> does);
  \<open>Buffer_write\<close> is a write of a \<^verbatim>\<open>bytes\<close> object to the binary layer
  \<^verbatim>\<open>stream.buffer\<close>. The other three are the script's uses of the library.
\<close>

datatype event =
    Text_write stream string
  | Buffer_write stream bytes
  | Import_winrm
  | Session_new session
  | Run_ps session string

text \<open>
  How the program ends: \<^verbatim>\<open>sys.exit(n)\<close>, or an exception nobody handles.
\<close>

datatype outcome = Exited int | Uncaught exn

record run =
  trace :: "event list"
  outcome :: outcome

subsection \<open>The program\<close>

definition newline :: string where
  "newline = [CHR 0x0A]"

text \<open>
  \<^verbatim>\<open>print(text, file=stream)\<close>: the text, then the line end, both written to the
  stream's text layer.
\<close>

definition py_print :: "stream \<Rightarrow> string \<Rightarrow> event list" where
  "py_print s text = [Text_write s text, Text_write s newline]"

definition usage_text :: "string \<Rightarrow> string" where
  "usage_text prog = ''Usage: '' @ prog @ '' <host> <user> <password> <powershell-command>''"

definition remediation_text :: string where
  "remediation_text = ''pywinrm not installed. Install with: pip install pywinrm''"

text \<open>
  The session expression of the script:
  \<^verbatim>\<open>winrm.Session(f"http://{host}:5985/wsman", auth=(user, password), transport="ntlm")\<close>.
\<close>

definition session :: "string \<Rightarrow> string \<Rightarrow> string \<Rightarrow> session" where
  "session host user password =
     \<lparr>target = ''http://'' @ host @ '':5985/wsman'',
      auth = (user, password),
      transport = ''ntlm''\<rparr>"

text \<open>
  The two guarded writes after \<^verbatim>\<open>run_ps\<close>: a \<^verbatim>\<open>bytes\<close> object is true when
  it is not empty.
\<close>

definition relay :: "response \<Rightarrow> event list" where
  "relay result =
     (if std_out result \<noteq> [] then [Buffer_write Stdout (std_out result)] else []) @
     (if std_err result \<noteq> [] then [Buffer_write Stderr (std_err result)] else [])"

text \<open>
  The whole script, statement by statement. An exception that no handler takes ends
  the run at the statement that raised it.
\<close>

definition main :: "env \<Rightarrow> string list \<Rightarrow> run" where
  "main e argv =
     (if length argv \<noteq> 5 then
        (case argv of
           [] \<Rightarrow> \<lparr>trace = [], outcome = Uncaught IndexError\<rparr>
         | prog # _ \<Rightarrow> \<lparr>trace = py_print Stderr (usage_text prog), outcome = Exited 2\<rparr>)
      else
        let host = argv ! 1; user = argv ! 2; password = argv ! 3; command = argv ! 4 in
        (case import_winrm e of
           Some x \<Rightarrow>
             (if x = ImportError then
                \<lparr>trace = Import_winrm # py_print Stderr remediation_text, outcome = Exited 2\<rparr>
              else \<lparr>trace = [Import_winrm], outcome = Uncaught x\<rparr>)
         | None \<Rightarrow>
             let s = session host user password in
             (case Session_init e s of
                Some x \<Rightarrow> \<lparr>trace = [Import_winrm, Session_new s], outcome = Uncaught x\<rparr>
              | None \<Rightarrow>
                  (case run_ps e s command of
                     Inl x \<Rightarrow>
                       \<lparr>trace = [Import_winrm, Session_new s, Run_ps s command],
                        outcome = Uncaught x\<rparr>
                   | Inr result \<Rightarrow>
                       \<lparr>trace = [Import_winrm, Session_new s, Run_ps s command] @ relay result,
                        outcome = Exited (status_code result)\<rparr>))))"

subsection \<open>What an observer of the process sees\<close>

text \<open>
  The exit code of the process, as its parent reads it on a POSIX system.
  \<^verbatim>\<open>sys.exit(n)\<close> hands \<open>n\<close> to the interpreter, which converts it to a C
  \<^verbatim>\<open>long\<close> of 64 bits and passes it to the operating system, and the operating
  system keeps the low 8 bits: 256 becomes 0, 257 becomes 1, -1 becomes 255. An
  argument outside the range of a \<^verbatim>\<open>long\<close> makes the conversion fail with -1,
  which becomes 255. After an ordinary exception that reached the top level the
  interpreter prints its traceback on the error stream and the exit code is 1.
\<close>

fun exit_code :: "outcome \<Rightarrow> int" where
  "exit_code (Exited n) =
     (if - 9223372036854775808 \<le> n \<and> n \<le> 9223372036854775807 then n mod 256 else 255)"
| "exit_code (Uncaught x) = 1"

text \<open>The text the program wrote to a stream through \<^verbatim>\<open>print\<close>.\<close>

fun text_written :: "stream \<Rightarrow> event list \<Rightarrow> string" where
  "text_written s [] = []"
| "text_written s (Text_write s' t # es) =
     (if s' = s then t @ text_written s es else text_written s es)"
| "text_written s (_ # es) = text_written s es"

text \<open>The bytes the program wrote to a stream through its binary layer.\<close>

fun bytes_written :: "stream \<Rightarrow> event list \<Rightarrow> bytes" where
  "bytes_written s [] = []"
| "bytes_written s (Buffer_write s' b # es) =
     (if s' = s then b @ bytes_written s es else bytes_written s es)"
| "bytes_written s (_ # es) = bytes_written s es"

text \<open>The uses of the library, and the writes to the local streams.\<close>

fun is_library_call :: "event \<Rightarrow> bool" where
  "is_library_call Import_winrm = True"
| "is_library_call (Session_new _) = True"
| "is_library_call (Run_ps _ _) = True"
| "is_library_call _ = False"

fun is_write :: "event \<Rightarrow> bool" where
  "is_write (Text_write _ _) = True"
| "is_write (Buffer_write _ _) = True"
| "is_write _ = False"

text \<open>A write, through either layer, to the given stream.\<close>

fun writes_to :: "stream \<Rightarrow> event \<Rightarrow> bool" where
  "writes_to s (Text_write s' _) = (s' = s)"
| "writes_to s (Buffer_write s' _) = (s' = s)"
| "writes_to s _ = False"

subsection \<open>The binary layer of the local streams\<close>

text \<open>
  \<^verbatim>\<open>sys.stdout.buffer\<close> and \<^verbatim>\<open>sys.stderr.buffer\<close> are buffered writers of
  the interpreter: a write to one of them does not by itself reach the file
  descriptor. The script never flushes, so when the bytes it relays leave the
  process is decided by the interpreter. The state of the two writers: what each
  holds, and the chunks that have reached the file descriptors so far, in order.
\<close>

record io =
  pending :: "stream \<Rightarrow> bytes"
  emitted :: "(stream \<times> bytes) list"

definition io_start :: io where
  "io_start = \<lparr>pending = (\<lambda>_. []), emitted = []\<rparr>"

definition raw_write :: "stream \<Rightarrow> bytes \<Rightarrow> io \<Rightarrow> io" where
  "raw_write s b st = st\<lparr>emitted := emitted st @ [(s, b)]\<rparr>"

text \<open>Flushing a writer sends what it holds, if anything, to the file descriptor.\<close>

definition flush :: "stream \<Rightarrow> io \<Rightarrow> io" where
  "flush s st =
     (if pending st s = [] then st
      else raw_write s (pending st s) (st\<lparr>pending := (pending st)(s := [])\<rparr>))"

text \<open>
  A write of \<open>b\<close> to the writer of stream \<open>s\<close>, whose buffer has \<open>cap s\<close> bytes
  (the block size of the file descriptor, 4096 for a pipe on Linux, or 8192; 0 when
  the interpreter runs unbuffered): bytes that fit beside what the writer holds are
  only stored; otherwise the writer is flushed, and the bytes are sent at once when
  they are longer than the buffer, stored when they are not.
\<close>

definition buffer_write :: "(stream \<Rightarrow> nat) \<Rightarrow> stream \<Rightarrow> bytes \<Rightarrow> io \<Rightarrow> io" where
  "buffer_write cap s b st =
     (if length b \<le> cap s - length (pending st s) then
        st\<lparr>pending := (pending st)(s := pending st s @ b)\<rparr>
      else
        let st' = flush s st in
        if length b > cap s then raw_write s b st'
        else st'\<lparr>pending := (pending st')(s := b)\<rparr>)"

text \<open>
  The binary-layer writes of a trace, applied in order. Writes through the text
  layer are not followed here: in this script they occur only in runs that write
  nothing to the binary layer.
\<close>

fun run_io :: "(stream \<Rightarrow> nat) \<Rightarrow> event list \<Rightarrow> io \<Rightarrow> io" where
  "run_io cap [] st = st"
| "run_io cap (Buffer_write s b # es) st = run_io cap es (buffer_write cap s b st)"
| "run_io cap (_ # es) st = run_io cap es st"

text \<open>
  When the script has ended, by \<^verbatim>\<open>sys.exit\<close> or by an exception, the interpreter
  flushes the error stream and then standard output.
\<close>

definition flush_io :: "io \<Rightarrow> io" where
  "flush_io st = flush Stdout (flush Stderr st)"

text \<open>What has left the process when it is over, chunk by chunk in order.\<close>

definition emitted_by :: "(stream \<Rightarrow> nat) \<Rightarrow> event list \<Rightarrow> (stream \<times> bytes) list" where
  "emitted_by cap t = emitted (flush_io (run_io cap t io_start))"

subsection \<open>Sample surroundings\<close>

text \<open>
  A host that runs the command and answers with both streams filled and status 1;
  the bytes include a carriage return, a line feed and two bytes that are not text.
\<close>

definition env_exit1 :: env where
  "env_exit1 =
     \<lparr>import_winrm = None,
      Session_init = (\<lambda>_. None),
      run_ps = (\<lambda>_ _. Inr \<lparr>std_out = [0x6F, 0x6B, 0x0D, 0x0A, 0xFF, 0x00],
                             std_err = [0x65, 0x72, 0x72, 0x0A],
                             status_code = 1\<rparr>)\<rparr>"

text \<open>
  The same host seen through a library that answers this one command alike and
  times out on every other.
\<close>

definition env_exit1_again :: env where
  "env_exit1_again =
     \<lparr>import_winrm = None,
      Session_init = (\<lambda>_. None),
      run_ps = (\<lambda>_ c. if c = ''exit 1''
                 then Inr \<lparr>std_out = [0x6F, 0x6B, 0x0D, 0x0A, 0xFF, 0x00],
                           std_err = [0x65, 0x72, 0x72, 0x0A],
                           status_code = 1\<rparr>
                 else Inl (Other ''ReadTimeout''))\<rparr>"



text \<open>A host that refuses the connection: \<^verbatim>\<open>run_ps\<close> raises.\<close>

definition env_refused :: env where
  "env_refused =
     \<lparr>import_winrm = None,
      Session_init = (\<lambda>_. None),
      run_ps = (\<lambda>_ _. Inl (Other ''ConnectionError''))\<rparr>"

text \<open>A machine without the \<^verbatim>\<open>pywinrm\<close> package.\<close>

definition env_no_pywinrm :: env where
  "env_no_pywinrm =
     \<lparr>import_winrm = Some ImportError,
      Session_init = (\<lambda>_. None),
      run_ps = (\<lambda>_ _. Inl (Other ''unreachable''))\<rparr>"

definition argv_ok :: "string list" where
  "argv_ok = [''winrm-cmd.py'', ''10.0.0.7'', ''admin'', ''s3cret'', ''exit 1'']"

section \<open>Properties\<close>

subsection \<open>Shape of a run, by case\<close>

lemma main_usage:
  "length args \<noteq> 4 \<Longrightarrow>
   main e (prog # args) = \<lparr>trace = py_print Stderr (usage_text prog), outcome = Exited 2\<rparr>"
  by (simp add: main_def)

lemma main_five:
  "main e [prog, host, user, password, command] =
     (case import_winrm e of
        Some x \<Rightarrow>
          (if x = ImportError then
             \<lparr>trace = Import_winrm # py_print Stderr remediation_text, outcome = Exited 2\<rparr>
           else \<lparr>trace = [Import_winrm], outcome = Uncaught x\<rparr>)
      | None \<Rightarrow>
          (case Session_init e (session host user password) of
             Some x \<Rightarrow>
               \<lparr>trace = [Import_winrm, Session_new (session host user password)],
                outcome = Uncaught x\<rparr>
           | None \<Rightarrow>
               (case run_ps e (session host user password) command of
                  Inl x \<Rightarrow>
                    \<lparr>trace = [Import_winrm, Session_new (session host user password),
                              Run_ps (session host user password) command],
                     outcome = Uncaught x\<rparr>
                | Inr result \<Rightarrow>
                    \<lparr>trace = [Import_winrm, Session_new (session host user password),
                              Run_ps (session host user password) command] @ relay result,
                     outcome = Exited (status_code result)\<rparr>)))"
  by (simp add: main_def Let_def split: option.split sum.split)

lemma main_executed:
  assumes "import_winrm e = None"
    and "Session_init e (session host user password) = None"
    and "run_ps e (session host user password) command = Inr result"
  shows "main e [prog, host, user, password, command] =
     \<lparr>trace = [Import_winrm, Session_new (session host user password),
               Run_ps (session host user password) command] @ relay result,
      outcome = Exited (status_code result)\<rparr>"
  using assms by (simp add: main_five)

lemma main_argv_ok_exit1:
  "main env_exit1 argv_ok =
     \<lparr>trace = [Import_winrm, Session_new (session ''10.0.0.7'' ''admin'' ''s3cret''),
               Run_ps (session ''10.0.0.7'' ''admin'' ''s3cret'') ''exit 1'',
               Buffer_write Stdout [0x6F, 0x6B, 0x0D, 0x0A, 0xFF, 0x00],
               Buffer_write Stderr [0x65, 0x72, 0x72, 0x0A]],
      outcome = Exited 1\<rparr>"
  by (simp add: main_five argv_ok_def env_exit1_def relay_def)

subsection \<open>Exit code of an executed command\<close>




subsection \<open>Usage errors\<close>

text \<open>
  Claim C2. Whenever the number of positional arguments (the argument vector without
  the program name) is not 4, the usage line, ended by a line end, is what the program
  writes to the error stream; it writes nothing at all to standard output, and it ends
  with exit code 2.
\<close>

theorem usage_error_reported:
  assumes "length args \<noteq> 4"
  shows "text_written Stderr (trace (main e (prog # args))) = usage_text prog @ newline
       \<and> bytes_written Stderr (trace (main e (prog # args))) = []
       \<and> filter (writes_to Stdout) (trace (main e (prog # args))) = []
       \<and> exit_code (outcome (main e (prog # args))) = 2"
  using assms by (simp add: main_usage py_print_def)

theorem usage_error_reported_witness:
  "length [''10.0.0.7'', ''admin''] \<noteq> 4
   \<and> text_written Stderr (trace (main env_exit1 [''winrm-cmd.py'', ''10.0.0.7'', ''admin'']))
       = ''Usage: winrm-cmd.py <host> <user> <password> <powershell-command>'' @ [CHR 0x0A]
   \<and> filter (writes_to Stdout) (trace (main env_exit1 [''winrm-cmd.py'', ''10.0.0.7'', ''admin''])) = []
   \<and> exit_code (outcome (main env_exit1 [''winrm-cmd.py'', ''10.0.0.7'', ''admin''])) = 2"
  using usage_error_reported [of "[''10.0.0.7'', ''admin'']" env_exit1 "''winrm-cmd.py''"]
  by (simp add: usage_text_def newline_def)

text \<open>
  Claim C9. On a usage error the run consists of the two text writes of the usage
  line to the error stream and of \<^verbatim>\<open>sys.exit(2)\<close>, and of nothing else: the
  library is not imported, no session is built, no command is sent, and the run is
  the same whatever the surroundings would have answered.
\<close>

theorem usage_error_touches_nothing:
  assumes "length args \<noteq> 4"
  shows "trace (main e (prog # args)) =
           [Text_write Stderr (usage_text prog), Text_write Stderr newline]
       \<and> outcome (main e (prog # args)) = Exited 2
       \<and> filter is_library_call (trace (main e (prog # args))) = []
       \<and> main e (prog # args) = main e' (prog # args)"
  using assms by (simp add: main_usage py_print_def)

theorem usage_error_touches_nothing_witness:
  "length [''10.0.0.7'', ''admin'', ''s3cret'', ''exit 1'', ''extra''] \<noteq> 4
   \<and> trace (main env_exit1 [''winrm-cmd.py'', ''10.0.0.7'', ''admin'', ''s3cret'', ''exit 1'', ''extra''])
       = [Text_write Stderr ''Usage: winrm-cmd.py <host> <user> <password> <powershell-command>'',
          Text_write Stderr [CHR 0x0A]]
   \<and> outcome (main env_exit1 [''winrm-cmd.py'', ''10.0.0.7'', ''admin'', ''s3cret'', ''exit 1'', ''extra''])
       = Exited 2
   \<and> main env_exit1 [''winrm-cmd.py'', ''10.0.0.7'', ''admin'', ''s3cret'', ''exit 1'', ''extra'']
       = main env_refused [''winrm-cmd.py'', ''10.0.0.7'', ''admin'', ''s3cret'', ''exit 1'', ''extra'']"
  using usage_error_touches_nothing
    [of "[''10.0.0.7'', ''admin'', ''s3cret'', ''exit 1'', ''extra'']" env_exit1 "''winrm-cmd.py''"
        env_refused]
  by (auto simp: usage_text_def newline_def)

subsection \<open>Missing library\<close>

text \<open>
  Claim C5. With four positional arguments, when importing the WinRM client raises
  \<^verbatim>\<open>ImportError\<close>, the program writes the remediation message, ended by a line
  end, to the error stream, writes nothing to standard output, and ends with exit
  code 2.
\<close>

theorem missing_library_reported:
  assumes "import_winrm e = Some ImportError"
  shows "text_written Stderr (trace (main e [prog, host, user, password, command]))
           = remediation_text @ newline
       \<and> bytes_written Stderr (trace (main e [prog, host, user, password, command])) = []
       \<and> filter (writes_to Stdout) (trace (main e [prog, host, user, password, command])) = []
       \<and> exit_code (outcome (main e [prog, host, user, password, command])) = 2"
  using assms by (simp add: main_five py_print_def)

theorem missing_library_reported_witness:
  "import_winrm env_no_pywinrm = Some ImportError
   \<and> text_written Stderr (trace (main env_no_pywinrm argv_ok))
       = ''pywinrm not installed. Install with: pip install pywinrm'' @ [CHR 0x0A]
   \<and> filter (writes_to Stdout) (trace (main env_no_pywinrm argv_ok)) = []
   \<and> exit_code (outcome (main env_no_pywinrm argv_ok)) = 2"
  using missing_library_reported
    [of env_no_pywinrm "''winrm-cmd.py''" "''10.0.0.7''" "''admin''" "''s3cret''" "''exit 1''"]
  by (simp add: env_no_pywinrm_def argv_ok_def remediation_text_def newline_def)

subsection \<open>The relay\<close>

lemma relay_stdout:
  "filter (writes_to Stdout) (relay result) =
     (if std_out result = [] then [] else [Buffer_write Stdout (std_out result)])"
  by (simp add: relay_def)

lemma relay_stderr:
  "filter (writes_to Stderr) (relay result) =
     (if std_err result = [] then [] else [Buffer_write Stderr (std_err result)])"
  by (simp add: relay_def)

lemma relay_bytes:
  "bytes_written Stdout (relay result) = std_out result"
  "bytes_written Stderr (relay result) = std_err result"
  by (simp_all add: relay_def)

lemma relay_text: "text_written s (relay result) = []"
  by (simp add: relay_def)

text \<open>
  Claim C3. Whenever a result was captured, the bytes written to local standard
  output are exactly its \<^verbatim>\<open>std_out\<close>, and the bytes written to the local error
  stream are exactly its \<^verbatim>\<open>std_err\<close>: each stream that is not empty is written
  by one write of the byte sequence itself to the binary layer, an empty stream is
  not written at all, and nothing passes through the text layer, where encoding and
  line ends would be handled.
\<close>

theorem relay_is_byte_exact:
  assumes "import_winrm e = None"
    and "Session_init e (session host user password) = None"
    and "run_ps e (session host user password) command = Inr result"
  shows "bytes_written Stdout (trace (main e [prog, host, user, password, command])) = std_out result
       \<and> bytes_written Stderr (trace (main e [prog, host, user, password, command])) = std_err result
       \<and> filter (writes_to Stdout) (trace (main e [prog, host, user, password, command]))
           = (if std_out result = [] then [] else [Buffer_write Stdout (std_out result)])
       \<and> filter (writes_to Stderr) (trace (main e [prog, host, user, password, command]))
           = (if std_err result = [] then [] else [Buffer_write Stderr (std_err result)])
       \<and> text_written Stdout (trace (main e [prog, host, user, password, command])) = []
       \<and> text_written Stderr (trace (main e [prog, host, user, password, command])) = []"
  using assms by (simp add: main_executed relay_stdout relay_stderr relay_bytes relay_text)

theorem relay_is_byte_exact_witness:
  "bytes_written Stdout (trace (main env_exit1 argv_ok)) = [0x6F, 0x6B, 0x0D, 0x0A, 0xFF, 0x00]
   \<and> bytes_written Stderr (trace (main env_exit1 argv_ok)) = [0x65, 0x72, 0x72, 0x0A]
   \<and> filter (writes_to Stdout) (trace (main env_exit1 argv_ok))
       = [Buffer_write Stdout [0x6F, 0x6B, 0x0D, 0x0A, 0xFF, 0x00]]
   \<and> filter (writes_to Stderr) (trace (main env_exit1 argv_ok))
       = [Buffer_write Stderr [0x65, 0x72, 0x72, 0x0A]]
   \<and> text_written Stdout (trace (main env_exit1 argv_ok)) = []
   \<and> text_written Stderr (trace (main env_exit1 argv_ok)) = []"
  using relay_is_byte_exact
    [of env_exit1 "''10.0.0.7''" "''admin''" "''s3cret''" "''exit 1''"
        "\<lparr>std_out = [0x6F, 0x6B, 0x0D, 0x0A, 0xFF, 0x00], std_err = [0x65, 0x72, 0x72, 0x0A],
          status_code = 1\<rparr>" "''winrm-cmd.py''"]
  by (simp add: env_exit1_def argv_ok_def)

lemma relay_writes:
  "filter is_write (relay result) =
     (if std_out result = [] then [] else [Buffer_write Stdout (std_out result)]) @
     (if std_err result = [] then [] else [Buffer_write Stderr (std_err result)])"
  by (simp add: relay_def)

lemma emitted_relay:
  "emitted (flush_io (run_io cap (relay result) io_start)) =
     (if length (std_out result) > cap Stdout then [(Stdout, std_out result)] else []) @
     (if std_err result = [] then [] else [(Stderr, std_err result)]) @
     (if std_out result \<noteq> [] \<and> length (std_out result) \<le> cap Stdout
      then [(Stdout, std_out result)] else [])"
  by (auto simp: relay_def buffer_write_def io_start_def flush_io_def flush_def raw_write_def
      Let_def fun_upd_def)

text \<open>
  Claim C10, as stated, fails: when the host answers six bytes of standard output
  and four bytes of error output, both stay in the writers of the interpreter until
  the script has ended, and the error bytes leave the process first.
\<close>

theorem stderr_emitted_first_counterexample:
  "trace (main env_exit1 argv_ok)
     = [Import_winrm, Session_new (session ''10.0.0.7'' ''admin'' ''s3cret''),
        Run_ps (session ''10.0.0.7'' ''admin'' ''s3cret'') ''exit 1'',
        Buffer_write Stdout [0x6F, 0x6B, 0x0D, 0x0A, 0xFF, 0x00],
        Buffer_write Stderr [0x65, 0x72, 0x72, 0x0A]]
   \<and> emitted_by (\<lambda>_. 4096) (trace (main env_exit1 argv_ok))
       = [(Stderr, [0x65, 0x72, 0x72, 0x0A]), (Stdout, [0x6F, 0x6B, 0x0D, 0x0A, 0xFF, 0x00])]"
  by (simp add: main_argv_ok_exit1 emitted_by_def buffer_write_def io_start_def flush_io_def
      flush_def raw_write_def Let_def fun_upd_def)

text \<open>
  Claim C10, amended. The order of the relay's write calls is fixed: the only writes
  of a run that relays a result are the write of the whole remote standard output to
  the writer of local standard output, if it is not empty, followed by the write of
  the whole remote error output to the writer of the local error stream, if it is
  not empty. The script does not flush, so the bytes leave the process in the
  interpreter's order: a standard output longer than the buffer of its writer leaves
  at once, before any error byte; a shorter one leaves when the script has ended,
  after the error bytes.
\<close>

theorem relay_write_calls_ordered:
  assumes "import_winrm e = None"
    and "Session_init e (session host user password) = None"
    and "run_ps e (session host user password) command = Inr result"
  shows "filter is_write (trace (main e [prog, host, user, password, command]))
           = (if std_out result = [] then [] else [Buffer_write Stdout (std_out result)]) @
             (if std_err result = [] then [] else [Buffer_write Stderr (std_err result)])
       \<and> emitted_by cap (trace (main e [prog, host, user, password, command]))
           = (if length (std_out result) > cap Stdout then [(Stdout, std_out result)] else []) @
             (if std_err result = [] then [] else [(Stderr, std_err result)]) @
             (if std_out result \<noteq> [] \<and> length (std_out result) \<le> cap Stdout
              then [(Stdout, std_out result)] else [])"
  using assms by (simp add: main_executed relay_writes emitted_by_def emitted_relay)

theorem relay_write_calls_ordered_witness:
  "filter is_write (trace (main env_exit1 argv_ok))
     = [Buffer_write Stdout [0x6F, 0x6B, 0x0D, 0x0A, 0xFF, 0x00],
        Buffer_write Stderr [0x65, 0x72, 0x72, 0x0A]]
   \<and> emitted_by (\<lambda>_. 4) (trace (main env_exit1 argv_ok))
       = [(Stdout, [0x6F, 0x6B, 0x0D, 0x0A, 0xFF, 0x00]), (Stderr, [0x65, 0x72, 0x72, 0x0A])]
   \<and> emitted_by (\<lambda>_. 8192) (trace (main env_exit1 argv_ok))
       = [(Stderr, [0x65, 0x72, 0x72, 0x0A]), (Stdout, [0x6F, 0x6B, 0x0D, 0x0A, 0xFF, 0x00])]"
  using relay_write_calls_ordered
    [of env_exit1 "''10.0.0.7''" "''admin''" "''s3cret''" "''exit 1''"
        "\<lparr>std_out = [0x6F, 0x6B, 0x0D, 0x0A, 0xFF, 0x00], std_err = [0x65, 0x72, 0x72, 0x0A],
          status_code = 1\<rparr>" "''winrm-cmd.py''" "\<lambda>_. 4"]
    relay_write_calls_ordered
    [of env_exit1 "''10.0.0.7''" "''admin''" "''s3cret''" "''exit 1''"
        "\<lparr>std_out = [0x6F, 0x6B, 0x0D, 0x0A, 0xFF, 0x00], std_err = [0x65, 0x72, 0x72, 0x0A],
          status_code = 1\<rparr>" "''winrm-cmd.py''" "\<lambda>_. 8192"]
  by (simp add: env_exit1_def argv_ok_def)

subsection \<open>Determinism\<close>

text \<open>
  Claim C7. Two invocations with the same arguments, in whatever surroundings, whose
  remote executions return the same result, are the same run: the same effects in
  the same order, hence the same bytes on both streams, and the same exit code.
\<close>

theorem same_result_same_run:
  assumes "import_winrm e1 = None"
    and "Session_init e1 (session host user password) = None"
    and "run_ps e1 (session host user password) command = Inr result"
    and "import_winrm e2 = None"
    and "Session_init e2 (session host user password) = None"
    and "run_ps e2 (session host user password) command = Inr result"
  shows "main e1 [prog, host, user, password, command] = main e2 [prog, host, user, password, command]
       \<and> bytes_written Stdout (trace (main e1 [prog, host, user, password, command]))
           = bytes_written Stdout (trace (main e2 [prog, host, user, password, command]))
       \<and> bytes_written Stderr (trace (main e1 [prog, host, user, password, command]))
           = bytes_written Stderr (trace (main e2 [prog, host, user, password, command]))
       \<and> exit_code (outcome (main e1 [prog, host, user, password, command]))
           = exit_code (outcome (main e2 [prog, host, user, password, command]))"
  using assms by (simp add: main_executed)

theorem same_result_same_run_witness:
  "run_ps env_exit1 (session ''10.0.0.7'' ''admin'' ''s3cret'') ''exit 1''
     = run_ps env_exit1_again (session ''10.0.0.7'' ''admin'' ''s3cret'') ''exit 1''
   \<and> env_exit1 \<noteq> env_exit1_again
   \<and> main env_exit1 argv_ok = main env_exit1_again argv_ok"
proof -
  have "run_ps env_exit1 s ''ls'' \<noteq> run_ps env_exit1_again s ''ls''" for s
    by (simp add: env_exit1_def env_exit1_again_def)
  then have "env_exit1 \<noteq> env_exit1_again"
    by metis
  with same_result_same_run
    [of env_exit1 "''10.0.0.7''" "''admin''" "''s3cret''" "''exit 1''"
        "\<lparr>std_out = [0x6F, 0x6B, 0x0D, 0x0A, 0xFF, 0x00], std_err = [0x65, 0x72, 0x72, 0x0A],
          status_code = 1\<rparr>" env_exit1_again "''winrm-cmd.py''"]
  show ?thesis
    by (simp add: env_exit1_def env_exit1_again_def argv_ok_def)
qed

subsection \<open>The session\<close>

text \<open>
  Claim C6. For every host, user and password, once the library is imported the
  program builds a session, and every session it builds has the target
  \<^verbatim>\<open>http://<host>:5985/wsman\<close>, the pair (user, password) as credentials and
  NTLM as transport.
\<close>

theorem session_endpoint:
  assumes "import_winrm e = None"
  shows "(Session_new s \<in> set (trace (main e [prog, host, user, password, command])))
       = (s = \<lparr>target = ''http://'' @ host @ '':5985/wsman'',
                auth = (user, password),
                transport = ''ntlm''\<rparr>)"
  using assms
  by (auto simp: main_five session_def relay_def split: option.splits sum.splits)

theorem session_endpoint_witness:
  "import_winrm env_refused = None
   \<and> Session_new \<lparr>target = ''http://10.0.0.7:5985/wsman'', auth = (''admin'', ''s3cret''),
                   transport = ''ntlm''\<rparr>
       \<in> set (trace (main env_refused argv_ok))
   \<and> Session_new \<lparr>target = ''https://10.0.0.7:5986/wsman'', auth = (''admin'', ''s3cret''),
                   transport = ''ntlm''\<rparr>
       \<notin> set (trace (main env_refused argv_ok))"
  using session_endpoint
    [of env_refused
        "\<lparr>target = ''http://10.0.0.7:5985/wsman'', auth = (''admin'', ''s3cret''),
          transport = ''ntlm''\<rparr>"
        "''winrm-cmd.py''" "''10.0.0.7''" "''admin''" "''s3cret''" "''exit 1''"]
    session_endpoint
    [of env_refused
        "\<lparr>target = ''https://10.0.0.7:5986/wsman'', auth = (''admin'', ''s3cret''),
          transport = ''ntlm''\<rparr>"
        "''winrm-cmd.py''" "''10.0.0.7''" "''admin''" "''s3cret''" "''exit 1''"]
  by (simp add: env_refused_def argv_ok_def)

subsection \<open>The password\<close>

lemma length_five:
  "length xs = 5 \<Longrightarrow> \<exists>a b c d f. xs = [a, b, c, d, f]"
  by (auto simp: length_Suc_conv eval_nat_numeral)

lemma main_usage_password:
  "length argv \<noteq> 5 \<Longrightarrow> main e (argv[3 := pw]) = main e argv"
  by (cases argv) (simp_all add: main_def eval_nat_numeral split: nat.split)

lemma main_five_writes:
  "filter is_write (trace (main e [prog, host, user, password, command])) =
     (case import_winrm e of
        Some x \<Rightarrow> (if x = ImportError then py_print Stderr remediation_text else [])
      | None \<Rightarrow>
          (case Session_init e (session host user password) of
             Some x \<Rightarrow> []
           | None \<Rightarrow>
               (case run_ps e (session host user password) command of
                  Inl x \<Rightarrow> []
                | Inr result \<Rightarrow> relay result)))"
  by (simp add: main_five py_print_def relay_def split: option.split sum.split)

lemma main_five_outcome:
  "outcome (main e [prog, host, user, password, command]) =
     (case import_winrm e of
        Some x \<Rightarrow> (if x = ImportError then Exited 2 else Uncaught x)
      | None \<Rightarrow>
          (case Session_init e (session host user password) of
             Some x \<Rightarrow> Uncaught x
           | None \<Rightarrow>
               (case run_ps e (session host user password) command of
                  Inl x \<Rightarrow> Uncaught x
                | Inr result \<Rightarrow> Exited (status_code result))))"
  by (simp add: main_five split: option.split sum.split)

text \<open>
  Claim C8. What the program writes to its two streams, and how it ends, does not
  depend on the password: replace the third positional argument by any other string,
  and as long as the library answers the session with the other password as it
  answers the session with the original one, the writes and the outcome are the
  same. The password reaches the library through the credentials of the session and
  nothing else of the run.
\<close>

theorem password_never_written:
  assumes "length argv = 5 \<Longrightarrow>
             Session_init e (session (argv ! 1) (argv ! 2) pw)
               = Session_init e (session (argv ! 1) (argv ! 2) (argv ! 3))"
    and "length argv = 5 \<Longrightarrow>
             run_ps e (session (argv ! 1) (argv ! 2) pw) (argv ! 4)
               = run_ps e (session (argv ! 1) (argv ! 2) (argv ! 3)) (argv ! 4)"
  shows "filter is_write (trace (main e (argv[3 := pw]))) = filter is_write (trace (main e argv))
       \<and> outcome (main e (argv[3 := pw])) = outcome (main e argv)"
proof (cases "length argv = 5")
  case False
  then show ?thesis
    by (simp add: main_usage_password)
next
  case True
  then obtain prog host user password command
    where argv: "argv = [prog, host, user, password, command]"
    using length_five by blast
  have upd: "argv[3 := pw] = [prog, host, user, pw, command]"
    by (simp add: argv eval_nat_numeral)
  from assms True argv have
    "Session_init e (session host user pw) = Session_init e (session host user password)"
    "run_ps e (session host user pw) command = run_ps e (session host user password) command"
    by simp_all
  then show ?thesis
    unfolding upd argv
    by (simp add: main_five_writes main_five_outcome split: option.split)
qed

theorem password_never_written_witness:
  "filter is_write (trace (main env_exit1 (argv_ok[3 := ''hunter2''])))
     = filter is_write (trace (main env_exit1 argv_ok))
   \<and> outcome (main env_exit1 (argv_ok[3 := ''hunter2''])) = outcome (main env_exit1 argv_ok)
   \<and> trace (main env_exit1 (argv_ok[3 := ''hunter2''])) \<noteq> trace (main env_exit1 argv_ok)"
proof -
  have "trace (main env_exit1 (argv_ok[3 := ''hunter2''])) \<noteq> trace (main env_exit1 argv_ok)"
    by (simp add: argv_ok_def eval_nat_numeral main_five env_exit1_def session_def)
  with password_never_written [of argv_ok env_exit1 "''hunter2''"]
  show ?thesis
    by (simp add: env_exit1_def)
qed

subsection \<open>Transport failures\<close>

text \<open>
  Claim C4, as stated, fails: the exit code of a run in which the library raised
  (a refused connection) is 1, the same as the exit code of a run whose remote
  command exited with 1.
\<close>

theorem transport_failure_exit_code_counterexample:
  "run_ps env_refused (session ''10.0.0.7'' ''admin'' ''s3cret'') ''exit 1''
     = Inl (Other ''ConnectionError'')
   \<and> run_ps env_exit1 (session ''10.0.0.7'' ''admin'' ''s3cret'') ''exit 1''
       = Inr \<lparr>std_out = [0x6F, 0x6B, 0x0D, 0x0A, 0xFF, 0x00], std_err = [0x65, 0x72, 0x72, 0x0A],
              status_code = 1\<rparr>
   \<and> exit_code (outcome (main env_refused argv_ok)) = 1
   \<and> exit_code (outcome (main env_exit1 argv_ok)) = 1"
  by (simp add: main_five argv_ok_def env_refused_def env_exit1_def)

text \<open>
  Claim C4, amended. Whenever the library raises while the session is built or
  while the command is run, the program does not handle the exception: it has
  written nothing to either stream, it ends with that exception uncaught (the
  interpreter reports it), and the exit code is 1, hence not zero. The exit code
  does not tell the failure from a remote command that exited with 1.
\<close>

theorem transport_failure_uncaught:
  assumes "import_winrm e = None"
    and "Session_init e (session host user password) = Some x
         \<or> Session_init e (session host user password) = None
           \<and> run_ps e (session host user password) command = Inl x"
  shows "outcome (main e [prog, host, user, password, command]) = Uncaught x
       \<and> exit_code (outcome (main e [prog, host, user, password, command])) = 1
       \<and> exit_code (outcome (main e [prog, host, user, password, command])) \<noteq> 0
       \<and> filter is_write (trace (main e [prog, host, user, password, command])) = []"
  using assms by (auto simp: main_five_writes main_five_outcome)

theorem transport_failure_uncaught_witness:
  "import_winrm env_refused = None
   \<and> Session_init env_refused (session ''10.0.0.7'' ''admin'' ''s3cret'') = None
   \<and> run_ps env_refused (session ''10.0.0.7'' ''admin'' ''s3cret'') ''exit 1''
       = Inl (Other ''ConnectionError'')
   \<and> outcome (main env_refused argv_ok) = Uncaught (Other ''ConnectionError'')
   \<and> exit_code (outcome (main env_refused argv_ok)) = 1
   \<and> filter is_write (trace (main env_refused argv_ok)) = []"
  using transport_failure_uncaught
    [of env_refused "''10.0.0.7''" "''admin''" "''s3cret''" "Other ''ConnectionError''"
        "''exit 1''" "''winrm-cmd.py''"]
  by (simp add: env_refused_def argv_ok_def)

end
